theory Spec2Isabelle
  imports Main "HOL-Library.AList" "HOL-Library.Multiset"
begin

section \<open>The room coordinator of the Quiz server\<close>

text \<open>
  The development embeds the realtime part of the server: the in-memory repository
  \<^verbatim>\<open>MemStorage\<close> (storage.ts; the exported \<^verbatim>\<open>storage\<close> is a \<^verbatim>\<open>FileStorage\<close>, which
  calls the \<^verbatim>\<open>MemStorage\<close> method and then writes a JSON dump, leaving memory as it
  is) and the WebSocket handlers of \<^verbatim>\<open>registerRoutes\<close> (routes.ts).

  Conventions of the embedding.
  \<^item> A JavaScript \<^verbatim>\<open>Map\<close> is an association list in insertion order:
    \<^verbatim>\<open>get\<close> is \<^const>\<open>map_of\<close>, \<^verbatim>\<open>set\<close> is \<^const>\<open>AList.update\<close> (an existing key
    keeps its place, a new key goes last), \<^verbatim>\<open>delete\<close> is \<^const>\<open>AList.delete\<close>,
    \<^verbatim>\<open>values()\<close> is \<open>map snd\<close>.
  \<^item> The objects held in a \<^verbatim>\<open>Map\<close> are mutated in place by the source
    (\<^verbatim>\<open>room.currentPlayers = ...\<close>, \<^verbatim>\<open>player.roomId = ...\<close>); the model writes the
    changed record back under the key the object was fetched with.
  \<^item> Counters and timestamps are JavaScript numbers holding integers; they are \<^typ>\<open>int\<close>.
    A \<^verbatim>\<open>Date\<close> is its \<^verbatim>\<open>getTime()\<close> value.
  \<^item> \<^verbatim>\<open>randomUUID()\<close>, \<^verbatim>\<open>new Date()\<close> and \<^verbatim>\<open>ws.readyState\<close> read the environment.
    What they return during one handler run is an explicit input (\<open>Env\<close>); nothing is
    assumed about it.
  \<^item> A handler runs to completion before the next event is taken (every awaited storage
    call of \<^verbatim>\<open>MemStorage\<close> resolves without waiting for input/output); it returns the
    new server state and the frames it sent, in order, each with its destination socket.
    A \<^verbatim>\<open>ws.send\<close> on the requesting socket does not throw.
  \<^item> \<^verbatim>\<open>createdAt\<close> of a room is a \<^verbatim>\<open>Date\<close> when \<^verbatim>\<open>createGameRoom\<close> made the room in
    this process, and a string when \<^verbatim>\<open>FileStorage.loadData\<close> read the room back from
    the data file (\<^verbatim>\<open>JSON.stringify\<close> writes a \<^verbatim>\<open>Date\<close> as its ISO string and
    \<^verbatim>\<open>JSON.parse\<close> returns that string). The type \<open>date\<close> has both.
  \<^item> \<^verbatim>\<open>joinedAt\<close> of a participant row is read by \<^verbatim>\<open>getParticipants\<close> alone, which no
    handler calls; it is the timestamp that \<^verbatim>\<open>addParticipant\<close> sets.
\<close>

subsection \<open>Records of shared/schema.ts\<close>

type_synonym json = string

text \<open>
  The value of a \<^verbatim>\<open>createdAt\<close> field: a \<^verbatim>\<open>Date\<close> object, given by its time value, or
  the string a reload leaves in its place. \<open>getTime\<close> is the method call
  \<^verbatim>\<open>createdAt!.getTime()\<close>: on a string it throws a \<^verbatim>\<open>TypeError\<close>, which is \<open>None\<close>.
\<close>

datatype date = Date int | DateString string

fun getTime :: "date \<Rightarrow> int option" where
  "getTime (Date t) = Some t"
| "getTime (DateString s) = None"

datatype js_error = TypeError

record GameRoom =
  r_id :: string
  r_name :: string
  r_hostId :: string
  r_status :: string
  r_maxPlayers :: int
  r_currentPlayers :: int
  r_config :: "json option"
  r_questions :: "json option"
  r_currentQuestionIndex :: int
  r_createdAt :: date
  r_startedAt :: "int option"
  r_finishedAt :: "int option"

record GameParticipant =
  p_id :: string
  p_roomId :: string
  p_userId :: string
  p_score :: int
  p_currentAnswers :: "json option"
  p_isReady :: bool
  p_joinedAt :: int

text \<open>The argument of \<^verbatim>\<open>createGameRoom\<close>: \<^verbatim>\<open>InsertGameRoom & { hostId: string }\<close>.\<close>

record InsertGameRoom =
  i_name :: string
  i_hostId :: string
  i_maxPlayers :: int
  i_config :: "json option"

subsection \<open>MemStorage\<close>

text \<open>
  Only the two maps the handlers touch are kept; \<^verbatim>\<open>users\<close>, \<^verbatim>\<open>gameResults\<close> and
  \<^verbatim>\<open>soloResults\<close> are never read or written by them.
\<close>

record MemStorage =
  gameRooms :: "(string \<times> GameRoom) list"
  gameParticipants :: "(string \<times> GameParticipant) list"

text \<open>\<^verbatim>\<open>n || d\<close> on a number: zero is falsy.\<close>

definition num_or :: "int \<Rightarrow> int \<Rightarrow> int" where
  "num_or n d = (if n = 0 then d else n)"

text \<open>
  \<^verbatim>\<open>createGameRoom(room)\<close>; \<open>uuid\<close> is what \<^verbatim>\<open>randomUUID()\<close> returns and \<open>now\<close> what
  \<^verbatim>\<open>new Date()\<close> returns. The object returned is the one stored in the map.
\<close>

definition createGameRoom ::
  "string \<Rightarrow> int \<Rightarrow> InsertGameRoom \<Rightarrow> MemStorage \<Rightarrow> GameRoom \<times> MemStorage" where
  "createGameRoom uuid now room st =
     (let gameRoom = \<lparr> r_id = uuid,
                        r_name = i_name room,
                        r_hostId = i_hostId room,
                        r_status = ''waiting'',
                        r_maxPlayers = num_or (i_maxPlayers room) 8,
                        r_currentPlayers = 1,
                        r_config = i_config room,
                        r_questions = None,
                        r_currentQuestionIndex = 0,
                        r_createdAt = Date now,
                        r_startedAt = None,
                        r_finishedAt = None \<rparr>
      in (gameRoom, st\<lparr>gameRooms := AList.update uuid gameRoom (gameRooms st)\<rparr>))"

definition getGameRoom :: "string \<Rightarrow> MemStorage \<Rightarrow> GameRoom option" where
  "getGameRoom rid st = map_of (gameRooms st) rid"

text \<open>
  \<^verbatim>\<open>getGameRooms()\<close>:
  \<^verbatim>\<open>values().filter(waiting).sort((a, b) => b.createdAt!.getTime() - a.createdAt!.getTime())\<close>.
  \<^verbatim>\<open>Array.prototype.sort\<close> returns an array of fewer than two elements without calling
  the comparator. On a longer array every element is an argument of some comparator
  call, and the comparator calls \<^verbatim>\<open>getTime()\<close> on both arguments: \<open>timed\<close> pairs each
  room with that value and is \<open>None\<close> when one of the calls throws. The sort is stable,
  and so is \<^const>\<open>sort_key\<close>; descending order of the time is ascending order of its
  negation.
\<close>

fun timed :: "GameRoom list \<Rightarrow> (int \<times> GameRoom) list option" where
  "timed [] = Some []"
| "timed (room # rooms) =
     (case getTime (r_createdAt room) of
        None \<Rightarrow> None
      | Some t \<Rightarrow> map_option ((#) (t, room)) (timed rooms))"

definition getGameRooms :: "MemStorage \<Rightarrow> js_error + GameRoom list" where
  "getGameRooms st =
     (let waiting = filter (\<lambda>room. r_status room = ''waiting'') (map snd (gameRooms st))
      in if length waiting < 2 then Inr waiting
         else (case timed waiting of
                 None \<Rightarrow> Inl TypeError
               | Some ts \<Rightarrow> Inr (map snd (sort_key (\<lambda>(t, room). - t) ts))))"

text \<open>\<^verbatim>\<open>addParticipant({roomId, userId})\<close>, with the environment reads as for \<^const>\<open>createGameRoom\<close>.\<close>

definition addParticipant ::
  "string \<Rightarrow> int \<Rightarrow> string \<Rightarrow> string \<Rightarrow> MemStorage \<Rightarrow> GameParticipant \<times> MemStorage" where
  "addParticipant uuid now roomId userId st =
     (let gameParticipant = \<lparr> p_id = uuid,
                               p_roomId = roomId,
                               p_userId = userId,
                               p_score = 0,
                               p_currentAnswers = None,
                               p_isReady = False,
                               p_joinedAt = now \<rparr>;
          st1 = st\<lparr>gameParticipants := AList.update uuid gameParticipant (gameParticipants st)\<rparr>
      in (gameParticipant,
          (case map_of (gameRooms st1) roomId of
             None \<Rightarrow> st1
           | Some room \<Rightarrow>
               st1\<lparr>gameRooms :=
                     AList.update roomId
                       (room\<lparr>r_currentPlayers := num_or (r_currentPlayers room) 0 + 1\<rparr>)
                       (gameRooms st1)\<rparr>)))"

text \<open>\<^verbatim>\<open>getParticipants(roomId)\<close>: the rows of a room, oldest first.\<close>

definition getParticipants :: "string \<Rightarrow> MemStorage \<Rightarrow> GameParticipant list" where
  "getParticipants roomId st =
     sort_key p_joinedAt
       (filter (\<lambda>participant. p_roomId participant = roomId) (map snd (gameParticipants st)))"

text \<open>
  \<^verbatim>\<open>removeParticipant(roomId, userId)\<close>: the first row of the pair, if any, is deleted
  under its own \<^verbatim>\<open>id\<close>, and only then is the counter lowered.
\<close>

definition removeParticipant :: "string \<Rightarrow> string \<Rightarrow> MemStorage \<Rightarrow> MemStorage" where
  "removeParticipant roomId userId st =
     (case find (\<lambda>p. p_roomId p = roomId \<and> p_userId p = userId) (map snd (gameParticipants st)) of
        None \<Rightarrow> st
      | Some participantToRemove \<Rightarrow>
          (let st1 = st\<lparr>gameParticipants :=
                          AList.delete (p_id participantToRemove) (gameParticipants st)\<rparr>
           in (case map_of (gameRooms st1) roomId of
                 None \<Rightarrow> st1
               | Some room \<Rightarrow>
                   st1\<lparr>gameRooms :=
                         AList.update roomId
                           (room\<lparr>r_currentPlayers := max 0 (num_or (r_currentPlayers room) 0 - 1)\<rparr>)
                           (gameRooms st1)\<rparr>)))"

definition joinGameRoom :: "string \<Rightarrow> int \<Rightarrow> string \<Rightarrow> string \<Rightarrow> MemStorage \<Rightarrow> MemStorage" where
  "joinGameRoom uuid now roomId userId st = snd (addParticipant uuid now roomId userId st)"

definition leaveGameRoom :: "string \<Rightarrow> string \<Rightarrow> MemStorage \<Rightarrow> MemStorage" where
  "leaveGameRoom roomId userId st = removeParticipant roomId userId st"

subsection \<open>The connection registry and the frames\<close>

text \<open>
  \<^verbatim>\<open>connectedPlayers: Map<string, { ws, userId, roomId: string | null }>\<close>, keyed by
  the user id. A socket is the identity of a \<^verbatim>\<open>WebSocket\<close> object, a number here.
\<close>

type_synonym socket = nat

record Player =
  ws :: socket
  userId :: string
  roomId :: "string option"

record Server =
  storage :: MemStorage
  connectedPlayers :: "(string \<times> Player) list"

text \<open>Truthiness of \<^verbatim>\<open>player.roomId\<close>: \<^verbatim>\<open>null\<close> and the empty string are falsy.\<close>

fun truthy :: "string option \<Rightarrow> bool" where
  "truthy None = False"
| "truthy (Some s) = (s \<noteq> [])"

text \<open>
  An inbound frame after \<^verbatim>\<open>JSON.parse\<close>. A field that the handler tests with
  \<^verbatim>\<open>typeof ... === 'string'\<close> or uses as a \<^verbatim>\<open>Map\<close> key is \<open>Some s\<close> when it is the
  string \<open>s\<close> and \<open>None\<close> otherwise. The \<^verbatim>\<open>maxPlayers\<close> field stands for
  \<^verbatim>\<open>Number(data.maxPlayers)\<close>: \<open>None\<close> is \<^verbatim>\<open>NaN\<close> (absent or not numeric), \<open>Some n\<close> an
  integer.
\<close>

datatype inbound =
    Unparsable
  | NoType
  | JoinLobby "string option"
  | CreateRoom "string option" "string option" "int option" "json option"
  | JoinRoom "string option" "string option"
  | LeaveRoom "string option"
  | GetRooms
  | UnknownType string

text \<open>
  An outbound frame. \<open>TypeOnly t\<close> is \<^verbatim>\<open>{ type: t }\<close> (\<^verbatim>\<open>room_left\<close>, and the lobby
  broadcast). \<open>RoomJoined None\<close> is \<^verbatim>\<open>{ type: 'room_joined' }\<close>: \<^verbatim>\<open>JSON.stringify\<close>
  drops a key whose value is \<^verbatim>\<open>undefined\<close>.
\<close>

datatype outbound =
    Error string
  | LobbyJoined string
  | RoomCreated GameRoom
  | RoomJoined "GameRoom option"
  | PlayerJoined string
  | PlayerLeft string
  | RoomsList "GameRoom list"
  | TypeOnly string

text \<open>What one handler run reads from the environment.\<close>

record Env =
  uuid1 :: string
  date1 :: int
  uuid2 :: string
  date2 :: int
  open_sockets :: "socket set"

definition broadcastToRoom ::
  "Env \<Rightarrow> (string \<times> Player) list \<Rightarrow> string \<Rightarrow> outbound \<Rightarrow> string option \<Rightarrow> (socket \<times> outbound) list" where
  "broadcastToRoom env players rid message excludeUserId =
     map (\<lambda>(u, player). (ws player, message))
       (filter (\<lambda>(u, player). roomId player = Some rid \<and> Some u \<noteq> excludeUserId
                                 \<and> ws player \<in> open_sockets env) players)"

definition broadcastToLobby ::
  "Env \<Rightarrow> (string \<times> Player) list \<Rightarrow> string \<Rightarrow> (socket \<times> outbound) list" where
  "broadcastToLobby env players messageType =
     map (\<lambda>(u, player). (ws player, TypeOnly messageType))
       (filter (\<lambda>(u, player). \<not> truthy (roomId player) \<and> ws player \<in> open_sockets env) players)"

text \<open>\<^verbatim>\<open>const player = connectedPlayers.get(u); if (player) { player.roomId = r; }\<close>\<close>

definition set_roomId :: "string \<Rightarrow> string option \<Rightarrow> (string \<times> Player) list \<Rightarrow> (string \<times> Player) list" where
  "set_roomId u r players =
     (case map_of players u of
        None \<Rightarrow> players
      | Some player \<Rightarrow> AList.update u (player\<lparr>roomId := r\<rparr>) players)"

subsection \<open>The message handlers\<close>

definition join_lobby :: "socket \<Rightarrow> string option \<Rightarrow> Server \<Rightarrow> Server \<times> (socket \<times> outbound) list" where
  "join_lobby sock uid srv =
     (case uid of
        None \<Rightarrow> (srv, [(sock, Error ''Invalid userId'')])
      | Some u \<Rightarrow>
          if u = [] then (srv, [(sock, Error ''Invalid userId'')])
          else (srv\<lparr>connectedPlayers :=
                      AList.update u \<lparr>ws = sock, userId = u, roomId = None\<rparr> (connectedPlayers srv)\<rparr>,
                [(sock, LobbyJoined u)]))"

text \<open>
  \<^verbatim>\<open>create_room\<close>. The local \<^verbatim>\<open>room\<close> is a reference to the object that
  \<^verbatim>\<open>createGameRoom\<close> put into \<^verbatim>\<open>gameRooms\<close>; \<^verbatim>\<open>joinGameRoom\<close> fetches that object
  under \<^verbatim>\<open>room.id\<close> and raises its counter in place, before \<^verbatim>\<open>ws.send\<close> serialises
  it. The frame therefore carries the record as the map holds it after the join, which
  is what \<open>sent\<close> reads back.
\<close>

definition create_room ::
  "Env \<Rightarrow> socket \<Rightarrow> string option \<Rightarrow> string option \<Rightarrow> int option \<Rightarrow> json option \<Rightarrow> Server
     \<Rightarrow> Server \<times> (socket \<times> outbound) list" where
  "create_room env sock uid roomName maxPlayers config srv =
     (case uid of
        None \<Rightarrow> (srv, [(sock, Error ''Failed to create room'')])
      | Some u \<Rightarrow>
          if u = [] then (srv, [(sock, Error ''Failed to create room'')])
          else
            (let name = (case roomName of Some n \<Rightarrow> take 80 n | None \<Rightarrow> ''Room'');
                 number = (case maxPlayers of None \<Rightarrow> 8 | Some n \<Rightarrow> num_or n 8);
                 (room, st1) = createGameRoom (uuid1 env) (date1 env)
                                 \<lparr> i_name = name, i_hostId = u,
                                   i_maxPlayers = max 2 (min number 16),
                                   i_config = config \<rparr> (storage srv);
                 st2 = joinGameRoom (uuid2 env) (date2 env) (r_id room) u st1;
                 players = set_roomId u (Some (r_id room)) (connectedPlayers srv);
                 sent = (case map_of (gameRooms st2) (r_id room) of Some r \<Rightarrow> r | None \<Rightarrow> room)
             in (\<lparr>storage = st2, connectedPlayers = players\<rparr>,
                 (sock, RoomCreated sent) # broadcastToLobby env players ''room_list_updated'')))"

definition join_room ::
  "Env \<Rightarrow> socket \<Rightarrow> string option \<Rightarrow> string option \<Rightarrow> Server \<Rightarrow> Server \<times> (socket \<times> outbound) list" where
  "join_room env sock rid uid srv =
     (case (rid, uid) of
        (Some r, Some u) \<Rightarrow>
          (let st1 = joinGameRoom (uuid1 env) (date1 env) r u (storage srv);
               players = set_roomId u (Some r) (connectedPlayers srv);
               room = getGameRoom r st1
           in (\<lparr>storage = st1, connectedPlayers = players\<rparr>,
               (sock, RoomJoined room)
                 # broadcastToRoom env players r (PlayerJoined u) (Some u)
                 @ broadcastToLobby env players ''room_list_updated''))
      | _ \<Rightarrow> (srv, [(sock, Error ''Failed to join room'')]))"

text \<open>
  \<^verbatim>\<open>leave_room\<close>: \<^verbatim>\<open>if (player?.roomId) { ... }\<close> has no \<^verbatim>\<open>else\<close>. The room left is the
  one the registry records; the room broadcast happens before \<^verbatim>\<open>player.roomId = null\<close>.
\<close>

definition leave_room :: "Env \<Rightarrow> socket \<Rightarrow> string option \<Rightarrow> Server \<Rightarrow> Server \<times> (socket \<times> outbound) list" where
  "leave_room env sock uid srv =
     (case uid of
        None \<Rightarrow> (srv, [])
      | Some u \<Rightarrow>
          (case map_of (connectedPlayers srv) u of
             None \<Rightarrow> (srv, [])
           | Some player \<Rightarrow>
               (case roomId player of
                  None \<Rightarrow> (srv, [])
                | Some r \<Rightarrow>
                    if r = [] then (srv, [])
                    else
                      (let st1 = leaveGameRoom r u (storage srv);
                           players = AList.update u (player\<lparr>roomId := None\<rparr>) (connectedPlayers srv)
                       in (\<lparr>storage = st1, connectedPlayers = players\<rparr>,
                           broadcastToRoom env (connectedPlayers srv) r (PlayerLeft u) (Some u)
                             @ (sock, TypeOnly ''room_left'')
                             # broadcastToLobby env players ''room_list_updated'')))))"

text \<open>\<^verbatim>\<open>get_rooms\<close>, with its \<^verbatim>\<open>catch\<close> branch for a throwing \<^verbatim>\<open>getGameRooms\<close>.\<close>

definition get_rooms :: "socket \<Rightarrow> Server \<Rightarrow> Server \<times> (socket \<times> outbound) list" where
  "get_rooms sock srv =
     (case getGameRooms (storage srv) of
        Inr rooms \<Rightarrow> (srv, [(sock, RoomsList rooms)])
      | Inl error \<Rightarrow> (srv, [(sock, Error ''Failed to get rooms'')]))"

definition on_message :: "Env \<Rightarrow> socket \<Rightarrow> inbound \<Rightarrow> Server \<Rightarrow> Server \<times> (socket \<times> outbound) list" where
  "on_message env sock data srv =
     (case data of
        Unparsable \<Rightarrow> (srv, [(sock, Error ''Invalid message format'')])
      | NoType \<Rightarrow> (srv, [(sock, Error ''Invalid message type'')])
      | JoinLobby uid \<Rightarrow> join_lobby sock uid srv
      | CreateRoom uid roomName maxPlayers config \<Rightarrow> create_room env sock uid roomName maxPlayers config srv
      | JoinRoom rid uid \<Rightarrow> join_room env sock rid uid srv
      | LeaveRoom uid \<Rightarrow> leave_room env sock uid srv
      | GetRooms \<Rightarrow> get_rooms sock srv
      | UnknownType t \<Rightarrow> (srv, [(sock, Error ''Unknown event'')]))"

text \<open>
  The \<^verbatim>\<open>close\<close> handler: the first registry entry whose \<^verbatim>\<open>ws\<close> is the closed socket is
  cleaned up and deleted, and the loop stops there (\<^verbatim>\<open>break\<close>). The key of the entry is
  the user id passed to the repository.
\<close>

definition on_close :: "Env \<Rightarrow> socket \<Rightarrow> Server \<Rightarrow> Server \<times> (socket \<times> outbound) list" where
  "on_close env sock srv =
     (case find (\<lambda>(u, player). ws player = sock) (connectedPlayers srv) of
        None \<Rightarrow> (srv, [])
      | Some (u, player) \<Rightarrow>
          (let left = (case roomId player of
                         None \<Rightarrow> (storage srv, [])
                       | Some r \<Rightarrow>
                           if r = [] then (storage srv, [])
                           else (leaveGameRoom r u (storage srv),
                                 broadcastToRoom env (connectedPlayers srv) r (PlayerLeft u) (Some u)));
               players = AList.delete u (connectedPlayers srv)
           in (\<lparr>storage = fst left, connectedPlayers = players\<rparr>,
               snd left @ broadcastToLobby env players ''room_list_updated'')))"

subsection \<open>Runs of the server\<close>

datatype event = Message socket inbound | Close socket

fun step :: "Env \<Rightarrow> event \<Rightarrow> Server \<Rightarrow> Server \<times> (socket \<times> outbound) list" where
  "step env (Message sock data) srv = on_message env sock data srv"
| "step env (Close sock) srv = on_close env sock srv"

text \<open>A run: each event comes with what its handler reads from the environment.\<close>

fun run :: "(Env \<times> event) list \<Rightarrow> Server \<Rightarrow> Server" where
  "run [] srv = srv"
| "run ((env, ev) # evs) srv = run evs (fst (step env ev srv))"

text \<open>The server at start, with nothing loaded from the data file.\<close>

definition init :: Server where
  "init = \<lparr>storage = \<lparr>gameRooms = [], gameParticipants = []\<rparr>, connectedPlayers = []\<rparr>"


subsection \<open>Properties of a repository state\<close>

text \<open>No room has a negative counter.\<close>

definition rooms_nonneg :: "MemStorage \<Rightarrow> bool" where
  "rooms_nonneg st = list_all (\<lambda>room. 0 \<le> r_currentPlayers room) (map snd (gameRooms st))"

text \<open>The test of \<^verbatim>\<open>removeParticipant\<close>: some row joins the room and the user.\<close>

definition has_row :: "string \<Rightarrow> string \<Rightarrow> MemStorage \<Rightarrow> bool" where
  "has_row rid uid st =
     (find (\<lambda>p. p_roomId p = rid \<and> p_userId p = uid) (map snd (gameParticipants st)) \<noteq> None)"

text \<open>The rows that join a room and a user, in the order of the map.\<close>

definition rows_of :: "string \<Rightarrow> string \<Rightarrow> MemStorage \<Rightarrow> GameParticipant list" where
  "rows_of rid uid st =
     filter (\<lambda>p. p_roomId p = rid \<and> p_userId p = uid) (map snd (gameParticipants st))"

text \<open>The rooms \<^verbatim>\<open>getGameRooms\<close> is to list, in the order of the map.\<close>

definition waiting_rooms :: "MemStorage \<Rightarrow> GameRoom list" where
  "waiting_rooms st = filter (\<lambda>room. r_status room = ''waiting'') (map snd (gameRooms st))"

text \<open>Every room of the repository has a \<^verbatim>\<open>Date\<close> as its \<^verbatim>\<open>createdAt\<close>.\<close>

definition rooms_dated :: "MemStorage \<Rightarrow> bool" where
  "rooms_dated st = list_all (\<lambda>room. getTime (r_createdAt room) \<noteq> None) (map snd (gameRooms st))"

text \<open>A list of rooms with \<^verbatim>\<open>Date\<close>s, each room no older than the rooms after it.\<close>

definition newest_first :: "GameRoom list \<Rightarrow> bool" where
  "newest_first rooms =
     sorted_wrt (\<lambda>a b. case (getTime (r_createdAt a), getTime (r_createdAt b)) of
                          (Some ta, Some tb) \<Rightarrow> tb \<le> ta
                        | _ \<Rightarrow> False) rooms"

subsection \<open>Concrete scenarios\<close>

text \<open>
  Environments and event lists the closed theorems below are evaluated on. Sockets 1, 2
  and 3 are open throughout.
\<close>

definition env_of :: "string \<Rightarrow> string \<Rightarrow> int \<Rightarrow> Env" where
  "env_of a b t = \<lparr>uuid1 = a, date1 = t, uuid2 = b, date2 = t + 1, open_sockets = {1, 2, 3}\<rparr>"

definition env1 :: Env where
  "env1 = env_of ''room-1'' ''row-1'' 1000"

definition env2 :: Env where
  "env2 = env_of ''row-2'' ''unused'' 2000"

definition env3 :: Env where
  "env3 = env_of ''row-3'' ''unused'' 3000"

text \<open>A room whose counter is zero although a row of it is left.\<close>

definition room_zero :: GameRoom where
  "room_zero = \<lparr> r_id = ''room-1'', r_name = ''Room'', r_hostId = ''u1'', r_status = ''waiting'',
                  r_maxPlayers = 8, r_currentPlayers = 0, r_config = None, r_questions = None,
                  r_currentQuestionIndex = 0, r_createdAt = Date 1000, r_startedAt = None,
                  r_finishedAt = None \<rparr>"

definition row_u2 :: GameParticipant where
  "row_u2 = \<lparr> p_id = ''row-2'', p_roomId = ''room-1'', p_userId = ''u2'', p_score = 0,
               p_currentAnswers = None, p_isReady = False, p_joinedAt = 2000 \<rparr>"

definition st_zero :: MemStorage where
  "st_zero = \<lparr>gameRooms = [(''room-1'', room_zero)], gameParticipants = [(''row-2'', row_u2)]\<rparr>"

text \<open>A registry entry that points into a room of which the user has no row.\<close>

definition srv_norow :: Server where
  "srv_norow = \<lparr>storage = \<lparr>gameRooms = [(''room-1'', room_zero)], gameParticipants = []\<rparr>,
                 connectedPlayers = [(''u1'', \<lparr>ws = 1, userId = ''u1'', roomId = Some ''room-1''\<rparr>)]\<rparr>"

text \<open>User u1 registers, creates a room, leaves it twice and disconnects.\<close>

definition evs_leave_twice :: "(Env \<times> event) list" where
  "evs_leave_twice =
     [(env1, Message 1 (JoinLobby (Some ''u1''))),
      (env1, Message 1 (CreateRoom (Some ''u1'') (Some ''Trivia Night'') (Some 4) None)),
      (env2, Message 1 (LeaveRoom (Some ''u1''))),
      (env2, Message 1 (LeaveRoom (Some ''u1''))),
      (env2, Close 1)]"

text \<open>Scenario 1 of the specification: u1 registers and creates a room for four.\<close>

definition evs_scenario1 :: "(Env \<times> event) list" where
  "evs_scenario1 =
     [(env1, Message 1 (JoinLobby (Some ''u1''))),
      (env1, Message 1 (CreateRoom (Some ''u1'') (Some ''Trivia Night'') (Some 4) None))]"

text \<open>Two users in the lobby, u1 on socket 1 and u2 on socket 2.\<close>

definition evs_lobby2 :: "(Env \<times> event) list" where
  "evs_lobby2 =
     [(env1, Message 1 (JoinLobby (Some ''u1''))),
      (env1, Message 2 (JoinLobby (Some ''u2'')))]"

definition lobby2 :: Server where
  "lobby2 = run evs_lobby2 init"

text \<open>In that lobby u1 creates a room for two: its counter already equals its cap.\<close>

definition evs_room_for_two :: "(Env \<times> event) list" where
  "evs_room_for_two =
     evs_lobby2 @ [(env1, Message 1 (CreateRoom (Some ''u1'') (Some ''Trivia Night'') (Some 2) None))]"

definition srv_full :: Server where
  "srv_full = run evs_room_for_two init"

definition room_full :: GameRoom where
  "room_full = \<lparr> r_id = ''room-1'', r_name = ''Trivia Night'', r_hostId = ''u1'',
                  r_status = ''waiting'', r_maxPlayers = 2, r_currentPlayers = 2, r_config = None,
                  r_questions = None, r_currentQuestionIndex = 0, r_createdAt = Date 1000,
                  r_startedAt = None, r_finishedAt = None \<rparr>"

text \<open>Socket 2 registers under the user id that socket 1 already created a room with.\<close>

definition evs_same_user :: "(Env \<times> event) list" where
  "evs_same_user = evs_scenario1 @ [(env2, Message 2 (JoinLobby (Some ''u1'')))]"

text \<open>In \<open>srv_full\<close>, u2 joins the room of u1.\<close>

definition srv_joined :: Server where
  "srv_joined = fst (step env2 (Message 2 (JoinRoom (Some ''room-1'') (Some ''u2''))) srv_full)"

text \<open>One socket registers under two user ids and creates a room under the second.\<close>

definition evs_two_ids :: "(Env \<times> event) list" where
  "evs_two_ids =
     [(env1, Message 1 (JoinLobby (Some ''u1''))),
      (env1, Message 1 (JoinLobby (Some ''u2''))),
      (env1, Message 1 (CreateRoom (Some ''u2'') (Some ''Trivia Night'') (Some 4) None))]"

definition srv_two_ids :: Server where
  "srv_two_ids = run evs_two_ids init"

text \<open>
  A server started over a data file that an earlier process wrote after two rooms had
  been created and left again: \<^verbatim>\<open>loadData\<close> fills \<^verbatim>\<open>gameRooms\<close> with the two rooms,
  their \<^verbatim>\<open>createdAt\<close> now strings; nobody is connected yet.
\<close>

definition srv_restarted :: Server where
  "srv_restarted =
     \<lparr>storage =
        \<lparr>gameRooms =
           [(''room-1'', room_full\<lparr>r_maxPlayers := 4, r_currentPlayers := 1,
                                    r_createdAt := DateString ''2025-09-08T10:00:00.000Z''\<rparr>),
            (''room-2'', room_full\<lparr>r_id := ''room-2'', r_hostId := ''u2'', r_maxPlayers := 4,
                                    r_currentPlayers := 1,
                                    r_createdAt := DateString ''2025-09-08T11:00:00.000Z''\<rparr>)],
         gameParticipants = []\<rparr>,
      connectedPlayers = []\<rparr>"

section \<open>Lemmas on the repository and the handlers\<close>

lemmas scenario_defs = env_of_def env1_def env2_def env3_def init_def

lemmas handler_defs =
  on_message_def join_lobby_def create_room_def join_room_def leave_room_def get_rooms_def
  on_close_def set_roomId_def broadcastToRoom_def broadcastToLobby_def

lemmas storage_defs =
  createGameRoom_def addParticipant_def removeParticipant_def joinGameRoom_def
  leaveGameRoom_def getGameRoom_def num_or_def

lemma num_or_zero [simp]: "num_or n 0 = n"
  by (simp add: num_or_def)

lemma list_all_snd_update:
  "list_all P (map snd al) \<Longrightarrow> P v \<Longrightarrow> list_all P (map snd (AList.update k v al))"
  by (induction al) auto

lemma list_all_snd_lookup:
  "list_all P (map snd al) \<Longrightarrow> map_of al k = Some v \<Longrightarrow> P v"
  by (induction al) (auto split: if_splits)

subsection \<open>The counter stays non-negative\<close>

lemma rooms_nonneg_createGameRoom:
  "rooms_nonneg st \<Longrightarrow> rooms_nonneg (snd (createGameRoom uuid now room st))"
  by (simp add: rooms_nonneg_def createGameRoom_def Let_def list_all_snd_update)

lemma rooms_nonneg_addParticipant:
  assumes "rooms_nonneg st"
  shows "rooms_nonneg (snd (addParticipant uuid now rid uid st))"
proof (cases "map_of (gameRooms st) rid")
  case None
  with assms show ?thesis by (simp add: rooms_nonneg_def addParticipant_def Let_def)
next
  case (Some room)
  with assms have "0 \<le> r_currentPlayers room"
    unfolding rooms_nonneg_def by (rule_tac list_all_snd_lookup)
  with assms Some show ?thesis
    by (simp add: rooms_nonneg_def addParticipant_def Let_def list_all_snd_update)
qed

lemma rooms_nonneg_removeParticipant:
  "rooms_nonneg st \<Longrightarrow> rooms_nonneg (removeParticipant rid uid st)"
  by (auto simp: rooms_nonneg_def removeParticipant_def Let_def list_all_snd_update
           split: option.splits)

lemma rooms_nonneg_create_room:
  assumes "rooms_nonneg (storage srv)"
  shows "rooms_nonneg (storage (fst (create_room env sock uid roomName maxPlayers config srv)))"
  using assms rooms_nonneg_addParticipant [OF rooms_nonneg_createGameRoom]
  by (simp add: create_room_def joinGameRoom_def Let_def case_prod_beta split: option.splits)

lemma rooms_nonneg_join_room:
  assumes "rooms_nonneg (storage srv)"
  shows "rooms_nonneg (storage (fst (join_room env sock rid uid srv)))"
  using assms
  by (simp add: join_room_def joinGameRoom_def Let_def rooms_nonneg_addParticipant
           split: option.splits)

lemma rooms_nonneg_leave_room:
  assumes "rooms_nonneg (storage srv)"
  shows "rooms_nonneg (storage (fst (leave_room env sock uid srv)))"
  using assms
  by (simp add: leave_room_def leaveGameRoom_def Let_def rooms_nonneg_removeParticipant
           split: option.splits)

lemma rooms_nonneg_on_message:
  "rooms_nonneg (storage srv) \<Longrightarrow> rooms_nonneg (storage (fst (on_message env sock data srv)))"
  by (cases data)
     (simp_all add: on_message_def join_lobby_def get_rooms_def rooms_nonneg_create_room
                    rooms_nonneg_join_room rooms_nonneg_leave_room
               split: option.splits sum.splits)

lemma rooms_nonneg_on_close:
  "rooms_nonneg (storage srv) \<Longrightarrow> rooms_nonneg (storage (fst (on_close env sock srv)))"
  by (auto simp: on_close_def leaveGameRoom_def Let_def rooms_nonneg_removeParticipant
           split: option.splits prod.splits)

lemma rooms_nonneg_step:
  "rooms_nonneg (storage srv) \<Longrightarrow> rooms_nonneg (storage (fst (step env ev srv)))"
  by (cases ev) (simp_all add: rooms_nonneg_on_message rooms_nonneg_on_close)

lemma rooms_nonneg_run:
  "rooms_nonneg (storage srv) \<Longrightarrow> rooms_nonneg (storage (run evs srv))"
proof (induction evs arbitrary: srv)
  case Nil
  then show ?case by simp
next
  case (Cons e evs)
  obtain env ev where e: "e = (env, ev)" by (cases e)
  from Cons.prems have "rooms_nonneg (storage (fst (step env ev srv)))"
    by (rule rooms_nonneg_step)
  then show ?case unfolding e by (simp add: Cons.IH)
qed

lemma rooms_nonneg_init: "rooms_nonneg (storage init)"
  by (simp add: rooms_nonneg_def init_def)

lemma removeParticipant_no_row:
  "\<not> has_row rid uid st \<Longrightarrow> removeParticipant rid uid st = st"
  by (simp add: has_row_def removeParticipant_def)

lemma removeParticipant_counter:
  assumes "has_row rid uid st" and "getGameRoom rid st = Some room"
  shows "map_option r_currentPlayers (getGameRoom rid (removeParticipant rid uid st))
           = Some (max 0 (r_currentPlayers room - 1))"
  using assms
  by (auto simp: has_row_def removeParticipant_def getGameRoom_def Let_def AList.update_conv')

lemma leave_room_no_row:
  assumes "map_of (connectedPlayers srv) u = Some player" and "roomId player = Some r"
    and "\<not> has_row r u (storage srv)"
  shows "storage (fst (leave_room env sock (Some u) srv)) = storage srv"
  using assms by (simp add: leave_room_def leaveGameRoom_def Let_def removeParticipant_no_row)

lemma on_close_no_row:
  assumes "find (\<lambda>(u, player). ws player = sock) (connectedPlayers srv) = Some (u, player)"
    and "roomId player = Some r" and "\<not> has_row r u (storage srv)"
  shows "storage (fst (on_close env sock srv)) = storage srv"
  using assms by (simp add: on_close_def leaveGameRoom_def Let_def removeParticipant_no_row)

subsection \<open>Listing rooms that carry dates\<close>

lemma timed_Some:
  "timed rooms = Some ts \<Longrightarrow>
   map snd ts = rooms \<and> list_all (\<lambda>(t, room). getTime (r_createdAt room) = Some t) ts"
  by (induction rooms arbitrary: ts) (auto split: option.splits)

lemma timed_dated:
  "list_all (\<lambda>room. getTime (r_createdAt room) \<noteq> None) rooms \<Longrightarrow> timed rooms \<noteq> None"
  by (induction rooms) auto

lemma newest_first_sorted:
  assumes "timed rooms = Some ts"
  shows "newest_first (map snd (sort_key (\<lambda>(t, room). - t) ts))"
proof -
  let ?sorted = "sort_key (\<lambda>(t, room). - t) ts"
  from assms have times: "list_all (\<lambda>(t, room). getTime (r_createdAt room) = Some t) ts"
    by (simp add: timed_Some)
  have "sorted (map (\<lambda>(t, room). - t) ?sorted)"
    by (rule sorted_sort_key)
  then have "sorted_wrt (\<lambda>a b. fst b \<le> fst a) ?sorted"
    by (simp add: sorted_map case_prod_beta)
  moreover have "fst b \<le> fst a \<Longrightarrow>
      (case (getTime (r_createdAt (snd a)), getTime (r_createdAt (snd b))) of
         (Some ta, Some tb) \<Rightarrow> tb \<le> ta | _ \<Rightarrow> False)"
    if "a \<in> set ?sorted" and "b \<in> set ?sorted" for a b
  proof -
    obtain ta ra tb rb where ab: "a = (ta, ra)" "b = (tb, rb)"
      by (cases a, cases b) auto
    from that times have "getTime (r_createdAt ra) = Some ta" "getTime (r_createdAt rb) = Some tb"
      unfolding ab by (auto simp: list_all_iff)
    then show "fst b \<le> fst a \<Longrightarrow>
      (case (getTime (r_createdAt (snd a)), getTime (r_createdAt (snd b))) of
         (Some ta, Some tb) \<Rightarrow> tb \<le> ta | _ \<Rightarrow> False)"
      by (simp add: ab)
  qed
  ultimately have "sorted_wrt (\<lambda>a b. case (getTime (r_createdAt (snd a)), getTime (r_createdAt (snd b))) of
                                       (Some ta, Some tb) \<Rightarrow> tb \<le> ta | _ \<Rightarrow> False) ?sorted"
    by (rule_tac sorted_wrt_mono_rel)
  then show ?thesis
    by (simp add: newest_first_def sorted_wrt_map)
qed

text \<open>
  Where every waiting room carries a \<^verbatim>\<open>Date\<close>, \<^verbatim>\<open>getGameRooms\<close> returns exactly the
  waiting rooms, newest first.
\<close>

lemma getGameRooms_dated:
  assumes "list_all (\<lambda>room. getTime (r_createdAt room) \<noteq> None) (waiting_rooms st)"
  shows "\<exists>rooms. getGameRooms st = Inr rooms \<and> mset rooms = mset (waiting_rooms st)
                 \<and> newest_first rooms"
proof (cases "length (waiting_rooms st) < 2")
  case True
  then have "waiting_rooms st = [] \<or> (\<exists>room. waiting_rooms st = [room])"
    by (cases "waiting_rooms st") (auto simp: length_Suc_conv)
  then have "newest_first (waiting_rooms st)"
    by (auto simp: newest_first_def)
  with True show ?thesis
    by (simp add: getGameRooms_def waiting_rooms_def)
next
  case False
  from timed_dated [OF assms] obtain ts where ts: "timed (waiting_rooms st) = Some ts"
    by auto
  then have "map snd ts = waiting_rooms st"
    by (simp add: timed_Some)
  then have "mset (map snd (sort_key (\<lambda>(t, room). - t) ts)) = mset (waiting_rooms st)"
    by (metis mset_map mset_sort)
  with False ts newest_first_sorted [OF ts] show ?thesis
    by (simp add: getGameRooms_def waiting_rooms_def [symmetric])
qed

lemma rooms_dated_addParticipant:
  assumes "rooms_dated st"
  shows "rooms_dated (snd (addParticipant uuid now rid uid st))"
proof (cases "map_of (gameRooms st) rid")
  case None
  with assms show ?thesis by (simp add: rooms_dated_def addParticipant_def Let_def)
next
  case (Some room)
  with assms have "getTime (r_createdAt room) \<noteq> None"
    unfolding rooms_dated_def by (rule_tac list_all_snd_lookup)
  with assms Some show ?thesis
    by (simp add: rooms_dated_def addParticipant_def Let_def list_all_snd_update)
qed

lemma rooms_dated_removeParticipant:
  assumes "rooms_dated st"
  shows "rooms_dated (removeParticipant rid uid st)"
proof (cases "map_of (gameRooms st) rid")
  case None
  with assms show ?thesis
    by (simp add: rooms_dated_def removeParticipant_def Let_def split: option.splits)
next
  case (Some room)
  with assms have "getTime (r_createdAt room) \<noteq> None"
    unfolding rooms_dated_def by (rule_tac list_all_snd_lookup)
  with assms Some show ?thesis
    by (simp add: rooms_dated_def removeParticipant_def Let_def list_all_snd_update
             split: option.splits)
qed

lemma rooms_dated_step:
  assumes "rooms_dated (storage srv)"
  shows "rooms_dated (storage (fst (step env ev srv)))"
proof (cases ev)
  case (Message sock data)
  have created: "rooms_dated (snd (createGameRoom uuid now room (storage srv)))" for uuid now room
    using assms by (simp add: rooms_dated_def createGameRoom_def Let_def list_all_snd_update)
  from assms rooms_dated_addParticipant [OF created] show ?thesis
    unfolding Message
    by (cases data)
       (simp_all add: on_message_def join_lobby_def create_room_def join_room_def leave_room_def
                      get_rooms_def joinGameRoom_def leaveGameRoom_def Let_def case_prod_beta
                      rooms_dated_addParticipant rooms_dated_removeParticipant
                 split: option.splits sum.splits)
next
  case (Close sock)
  with assms show ?thesis
    by (simp add: on_close_def leaveGameRoom_def Let_def rooms_dated_removeParticipant
             split: option.splits prod.splits)
qed

lemma rooms_dated_run:
  "rooms_dated (storage srv) \<Longrightarrow> rooms_dated (storage (run evs srv))"
proof (induction evs arbitrary: srv)
  case Nil
  then show ?case by simp
next
  case (Cons e evs)
  obtain env ev where e: "e = (env, ev)" by (cases e)
  from Cons.prems have "rooms_dated (storage (fst (step env ev srv)))"
    by (rule rooms_dated_step)
  then show ?case unfolding e by (simp add: Cons.IH)
qed

text \<open>
  In a process that started with an empty repository, \<^verbatim>\<open>get_rooms\<close> is always answered
  with the waiting rooms, newest first, and changes nothing.
\<close>

lemma get_rooms_of_fresh_process:
  "\<exists>rooms. step env (Message sock GetRooms) (run evs init) = (run evs init, [(sock, RoomsList rooms)])
           \<and> mset rooms = mset (waiting_rooms (storage (run evs init)))
           \<and> newest_first rooms"
proof -
  have "rooms_dated (storage (run evs init))"
    by (rule rooms_dated_run) (simp add: rooms_dated_def init_def)
  then have "list_all (\<lambda>room. getTime (r_createdAt room) \<noteq> None) (waiting_rooms (storage (run evs init)))"
    by (auto simp: rooms_dated_def waiting_rooms_def list_all_iff)
  from getGameRooms_dated [OF this] show ?thesis
    by (auto simp: on_message_def get_rooms_def)
qed

subsection \<open>The scenarios, evaluated\<close>

lemma lobby2_eq:
  "lobby2 = \<lparr>storage = \<lparr>gameRooms = [], gameParticipants = []\<rparr>,
             connectedPlayers = [(''u1'', \<lparr>ws = 1, userId = ''u1'', roomId = None\<rparr>),
                                 (''u2'', \<lparr>ws = 2, userId = ''u2'', roomId = None\<rparr>)]\<rparr>"
  by (simp add: lobby2_def evs_lobby2_def scenario_defs on_message_def join_lobby_def)

lemma run_append: "run (evs @ evs') srv = run evs' (run evs srv)"
  by (induction evs arbitrary: srv) auto

lemma srv_full_eq:
  "srv_full = \<lparr>storage = \<lparr>gameRooms = [(''room-1'', room_full)],
                            gameParticipants =
                              [(''row-1'', \<lparr> p_id = ''row-1'', p_roomId = ''room-1'', p_userId = ''u1'',
                                             p_score = 0, p_currentAnswers = None, p_isReady = False,
                                             p_joinedAt = 1001 \<rparr>)]\<rparr>,
               connectedPlayers = [(''u1'', \<lparr>ws = 1, userId = ''u1'', roomId = Some ''room-1''\<rparr>),
                                   (''u2'', \<lparr>ws = 2, userId = ''u2'', roomId = None\<rparr>)]\<rparr>"
  unfolding srv_full_def evs_room_for_two_def run_append lobby2_def [symmetric] lobby2_eq
  by (simp add: scenario_defs handler_defs storage_defs room_full_def Let_def)

lemma scenario1_eq:
  "run evs_scenario1 init =
     \<lparr>storage = \<lparr>gameRooms = [(''room-1'', room_full\<lparr>r_maxPlayers := 4\<rparr>)],
                 gameParticipants =
                   [(''row-1'', \<lparr> p_id = ''row-1'', p_roomId = ''room-1'', p_userId = ''u1'',
                                  p_score = 0, p_currentAnswers = None, p_isReady = False,
                                  p_joinedAt = 1001 \<rparr>)]\<rparr>,
      connectedPlayers = [(''u1'', \<lparr>ws = 1, userId = ''u1'', roomId = Some ''room-1''\<rparr>)]\<rparr>"
  by (simp add: evs_scenario1_def scenario_defs handler_defs storage_defs room_full_def Let_def)

lemma srv_joined_eq:
  "srv_joined =
     \<lparr>storage = \<lparr>gameRooms = [(''room-1'', room_full\<lparr>r_currentPlayers := 3\<rparr>)],
                 gameParticipants =
                   [(''row-1'', \<lparr> p_id = ''row-1'', p_roomId = ''room-1'', p_userId = ''u1'',
                                  p_score = 0, p_currentAnswers = None, p_isReady = False,
                                  p_joinedAt = 1001 \<rparr>),
                    (''row-2'', \<lparr> p_id = ''row-2'', p_roomId = ''room-1'', p_userId = ''u2'',
                                  p_score = 0, p_currentAnswers = None, p_isReady = False,
                                  p_joinedAt = 2000 \<rparr>)]\<rparr>,
      connectedPlayers = [(''u1'', \<lparr>ws = 1, userId = ''u1'', roomId = Some ''room-1''\<rparr>),
                          (''u2'', \<lparr>ws = 2, userId = ''u2'', roomId = Some ''room-1''\<rparr>)]\<rparr>"
  unfolding srv_joined_def srv_full_eq
  by (simp add: scenario_defs handler_defs storage_defs room_full_def Let_def)

lemma srv_two_ids_eq:
  "srv_two_ids =
     \<lparr>storage = \<lparr>gameRooms = [(''room-1'', room_full\<lparr>r_hostId := ''u2'', r_maxPlayers := 4\<rparr>)],
                 gameParticipants =
                   [(''row-1'', \<lparr> p_id = ''row-1'', p_roomId = ''room-1'', p_userId = ''u2'',
                                  p_score = 0, p_currentAnswers = None, p_isReady = False,
                                  p_joinedAt = 1001 \<rparr>)]\<rparr>,
      connectedPlayers = [(''u1'', \<lparr>ws = 1, userId = ''u1'', roomId = None\<rparr>),
                          (''u2'', \<lparr>ws = 1, userId = ''u2'', roomId = Some ''room-1''\<rparr>)]\<rparr>"
  by (simp add: srv_two_ids_def evs_two_ids_def scenario_defs handler_defs storage_defs
                room_full_def Let_def)

subsection \<open>What a join does to the repository\<close>

lemma update_fresh: "k \<notin> fst ` set al \<Longrightarrow> AList.update k v al = al @ [(k, v)]"
  by (induction al) auto

lemma gameParticipants_addParticipant:
  "gameParticipants (snd (addParticipant uuid now rid uid st))
     = AList.update uuid \<lparr> p_id = uuid, p_roomId = rid, p_userId = uid, p_score = 0,
                           p_currentAnswers = None, p_isReady = False, p_joinedAt = now \<rparr>
         (gameParticipants st)"
  by (simp add: addParticipant_def Let_def split: option.splits)

lemma getGameRoom_addParticipant:
  "getGameRoom rid st = Some room \<Longrightarrow>
   getGameRoom rid (snd (addParticipant uuid now rid uid st))
     = Some (room\<lparr>r_currentPlayers := r_currentPlayers room + 1\<rparr>)"
  by (simp add: addParticipant_def getGameRoom_def Let_def AList.update_conv')

lemma storage_join_room:
  "storage (fst (join_room env sock (Some rid) (Some uid) srv))
     = snd (addParticipant (uuid1 env) (date1 env) rid uid (storage srv))"
  by (simp add: join_room_def joinGameRoom_def Let_def)

subsection \<open>The registry keeps its keys distinct\<close>

lemma distinct_set_roomId:
  "distinct (map fst players) \<Longrightarrow> distinct (map fst (set_roomId u r players))"
  by (simp add: set_roomId_def AList.distinct_update split: option.splits)

lemma distinct_on_message:
  assumes "distinct (map fst (connectedPlayers srv))"
  shows "distinct (map fst (connectedPlayers (fst (on_message env sock data srv))))"
  using assms
  by (cases data)
     (simp_all add: on_message_def join_lobby_def create_room_def join_room_def leave_room_def
                    get_rooms_def Let_def case_prod_beta distinct_set_roomId
                    AList.distinct_update
               split: option.splits sum.splits)

lemma distinct_on_close:
  assumes "distinct (map fst (connectedPlayers srv))"
  shows "distinct (map fst (connectedPlayers (fst (on_close env sock srv))))"
  using assms
  by (simp add: on_close_def Let_def AList.distinct_delete split: option.splits prod.splits)

lemma distinct_run:
  "distinct (map fst (connectedPlayers srv)) \<Longrightarrow> distinct (map fst (connectedPlayers (run evs srv)))"
proof (induction evs arbitrary: srv)
  case Nil
  then show ?case by simp
next
  case (Cons e evs)
  obtain env ev where e: "e = (env, ev)" by (cases e)
  from Cons.prems have "distinct (map fst (connectedPlayers (fst (step env ev srv))))"
    by (cases ev) (simp_all add: distinct_on_message distinct_on_close)
  then show ?case unfolding e by (simp add: Cons.IH)
qed

lemma find_holds: "find P xs = Some x \<Longrightarrow> P x \<and> x \<in> set xs"
  by (induction xs) (auto split: if_splits)

lemma find_update_same:
  assumes "distinct (map fst al)" and "find P al = Some (u, p)" and "P (u, p')"
  shows "find P (AList.update u p' al) = Some (u, p')"
  using assms
proof (induction al)
  case Nil
  then show ?case by simp
next
  case (Cons e al)
  show ?case
  proof (cases "P e")
    case True
    with Cons.prems show ?thesis by auto
  next
    case False
    with Cons.prems have rest: "find P al = Some (u, p)" by simp
    then have "(u, p) \<in> set al" by (simp add: find_holds)
    then have "u \<in> fst ` set al" by force
    with Cons.prems(1) have "fst e \<noteq> u" by auto
    with False Cons.IH [OF _ rest Cons.prems(3)] Cons.prems(1) show ?thesis by simp
  qed
qed

section \<open>The claims\<close>

text \<open>
  C1, at Scenario 1 of the specification. After \<^verbatim>\<open>join_lobby\<close> and \<^verbatim>\<open>create_room\<close>
  on the empty server the new room is stored with \<^verbatim>\<open>currentPlayers = 2\<close>, while
  \<^verbatim>\<open>getParticipants\<close> finds one row for it, the creator's: \<^verbatim>\<open>createGameRoom\<close> starts the
  counter at one for the host and \<^verbatim>\<open>joinGameRoom\<close> then counts the host again.
\<close>

theorem create_room_counts_host_twice:
  "map_option r_currentPlayers (getGameRoom ''room-1'' (storage (run evs_scenario1 init))) = Some 2
   \<and> map p_userId (getParticipants ''room-1'' (storage (run evs_scenario1 init))) = [''u1'']"
  by (simp add: evs_scenario1_def scenario_defs handler_defs storage_defs getParticipants_def
                Let_def)

text \<open>
  C2, as stated, fails: the room of \<open>srv_full\<close> has \<^verbatim>\<open>currentPlayers = maxPlayers = 2\<close>;
  u2's \<^verbatim>\<open>join_room\<close> is answered with \<^verbatim>\<open>room_joined\<close>, not with an error, and the
  counter goes to 3.
\<close>

theorem join_full_room_counterexample:
  "getGameRoom ''room-1'' (storage srv_full) = Some room_full
   \<and> r_currentPlayers room_full = r_maxPlayers room_full
   \<and> snd (step env2 (Message 2 (JoinRoom (Some ''room-1'') (Some ''u2''))) srv_full)
       = [(2, RoomJoined (Some (room_full\<lparr>r_currentPlayers := 3\<rparr>))), (1, PlayerJoined ''u2'')]
   \<and> getGameRoom ''room-1'' (storage (fst (step env2 (Message 2 (JoinRoom (Some ''room-1'') (Some ''u2''))) srv_full)))
       = Some (room_full\<lparr>r_currentPlayers := 3\<rparr>)"
  by (simp add: srv_full_eq room_full_def scenario_defs handler_defs storage_defs Let_def)

text \<open>
  C2, amended. The coordinator makes no capacity check. A \<^verbatim>\<open>join_room\<close> message (room
  id and user id both strings) that targets an existing room is applied whatever the
  room's \<^verbatim>\<open>currentPlayers\<close>, \<^verbatim>\<open>maxPlayers\<close> and status: a participant row is stored
  under the new row id, \<^verbatim>\<open>currentPlayers\<close> goes up by one (also past \<^verbatim>\<open>maxPlayers\<close>),
  the requester is sent \<^verbatim>\<open>room_joined\<close> with the room as updated, and no frame sent is
  an error.
\<close>

theorem join_room_ignores_capacity:
  assumes "getGameRoom rid (storage srv) = Some room"
  shows "hd (snd (step env (Message sock (JoinRoom (Some rid) (Some uid))) srv))
           = (sock, RoomJoined (Some (room\<lparr>r_currentPlayers := r_currentPlayers room + 1\<rparr>)))
         \<and> (\<forall>dest m. (dest, Error m) \<notin> set (snd (step env (Message sock (JoinRoom (Some rid) (Some uid))) srv)))
         \<and> getGameRoom rid (storage (fst (step env (Message sock (JoinRoom (Some rid) (Some uid))) srv)))
             = Some (room\<lparr>r_currentPlayers := r_currentPlayers room + 1\<rparr>)
         \<and> map_of (gameParticipants (storage (fst (step env (Message sock (JoinRoom (Some rid) (Some uid))) srv))))
                  (uuid1 env)
             = Some \<lparr> p_id = uuid1 env, p_roomId = rid, p_userId = uid, p_score = 0,
                      p_currentAnswers = None, p_isReady = False, p_joinedAt = date1 env \<rparr>"
proof -
  let ?st = "snd (addParticipant (uuid1 env) (date1 env) rid uid (storage srv))"
  let ?room = "room\<lparr>r_currentPlayers := r_currentPlayers room + 1\<rparr>"
  from assms have room: "getGameRoom rid ?st = Some ?room"
    by (simp add: addParticipant_def getGameRoom_def Let_def AList.update_conv')
  have row: "map_of (gameParticipants ?st) (uuid1 env)
      = Some \<lparr> p_id = uuid1 env, p_roomId = rid, p_userId = uid, p_score = 0,
               p_currentAnswers = None, p_isReady = False, p_joinedAt = date1 env \<rparr>"
    using assms by (simp add: addParticipant_def getGameRoom_def Let_def AList.update_conv')
  have frames: "snd (join_room env sock (Some rid) (Some uid) srv)
      = (sock, RoomJoined (Some ?room))
          # broadcastToRoom env (set_roomId uid (Some rid) (connectedPlayers srv)) rid (PlayerJoined uid) (Some uid)
          @ broadcastToLobby env (set_roomId uid (Some rid) (connectedPlayers srv)) ''room_list_updated''"
    using room by (simp add: join_room_def joinGameRoom_def Let_def)
  have no_error: "(dest, Error m) \<notin> set (snd (join_room env sock (Some rid) (Some uid) srv))" for dest m
    unfolding frames by (auto simp: broadcastToRoom_def broadcastToLobby_def)
  have state: "storage (fst (join_room env sock (Some rid) (Some uid) srv)) = ?st"
    by (simp add: join_room_def joinGameRoom_def Let_def)
  show ?thesis
    using no_error by (simp add: on_message_def frames state room row)
qed

theorem join_room_ignores_capacity_witness:
  "getGameRoom ''room-1'' (storage srv_full) = Some room_full
   \<and> r_currentPlayers room_full = 2 \<and> r_maxPlayers room_full = 2
   \<and> hd (snd (step env3 (Message 3 (JoinRoom (Some ''room-1'') (Some ''u3''))) srv_full))
       = (3, RoomJoined (Some (room_full\<lparr>r_currentPlayers := 3\<rparr>)))
   \<and> getGameRoom ''room-1'' (storage (fst (step env3 (Message 3 (JoinRoom (Some ''room-1'') (Some ''u3''))) srv_full)))
       = Some (room_full\<lparr>r_currentPlayers := 3\<rparr>)"
proof -
  have room: "getGameRoom ''room-1'' (storage srv_full) = Some room_full"
    by (simp add: srv_full_eq getGameRoom_def)
  have vals: "r_currentPlayers room_full = 2" "r_maxPlayers room_full = 2"
    by (simp_all add: room_full_def)
  from join_room_ignores_capacity [OF room, of env3 3 "''u3''"] room vals show ?thesis
    by simp
qed

text \<open>
  C3, as stated, fails: in \<open>srv_joined\<close> user u2 is in the room, with one row and the
  counter at 3; a second \<^verbatim>\<open>join_room\<close> of u2 for the same room stores a second row
  and raises the counter to 4.
\<close>

theorem join_twice_counterexample:
  "map_option roomId (map_of (connectedPlayers srv_joined) ''u2'') = Some (Some ''room-1'')
   \<and> map p_id (rows_of ''room-1'' ''u2'' (storage srv_joined)) = [''row-2'']
   \<and> map_option r_currentPlayers (getGameRoom ''room-1'' (storage srv_joined)) = Some 3
   \<and> map p_id (rows_of ''room-1'' ''u2''
        (storage (fst (step env3 (Message 2 (JoinRoom (Some ''room-1'') (Some ''u2''))) srv_joined))))
       = [''row-2'', ''row-3'']
   \<and> map_option r_currentPlayers (getGameRoom ''room-1''
        (storage (fst (step env3 (Message 2 (JoinRoom (Some ''room-1'') (Some ''u2''))) srv_joined))))
       = Some 4"
  by (simp add: srv_joined_eq rows_of_def room_full_def scenario_defs handler_defs storage_defs
                Let_def)

text \<open>
  C3, amended. The coordinator does not look for an existing membership. Every
  \<^verbatim>\<open>join_room\<close> message (room id and user id both strings) appends one more row of
  that room and user under the new row id, whatever rows of the pair exist already, and
  raises the counter of the room, if the room exists, by one more.
\<close>

theorem join_room_adds_row_each_time:
  assumes "uuid1 env \<notin> fst ` set (gameParticipants (storage srv))"
  shows "rows_of rid uid (storage (fst (step env (Message sock (JoinRoom (Some rid) (Some uid))) srv)))
           = rows_of rid uid (storage srv)
               @ [\<lparr> p_id = uuid1 env, p_roomId = rid, p_userId = uid, p_score = 0,
                     p_currentAnswers = None, p_isReady = False, p_joinedAt = date1 env \<rparr>]
         \<and> (\<forall>room. getGameRoom rid (storage srv) = Some room \<longrightarrow>
               getGameRoom rid (storage (fst (step env (Message sock (JoinRoom (Some rid) (Some uid))) srv)))
                 = Some (room\<lparr>r_currentPlayers := r_currentPlayers room + 1\<rparr>))"
  using assms
  by (simp add: on_message_def storage_join_room rows_of_def gameParticipants_addParticipant
                update_fresh getGameRoom_addParticipant)

theorem join_room_adds_row_each_time_witness:
  "''row-3'' \<notin> fst ` set (gameParticipants (storage srv_joined))
   \<and> map p_id (rows_of ''room-1'' ''u2'' (storage srv_joined)) = [''row-2'']
   \<and> map p_id (rows_of ''room-1'' ''u2''
        (storage (fst (step env3 (Message 2 (JoinRoom (Some ''room-1'') (Some ''u2''))) srv_joined))))
       = [''row-2'', ''row-3'']
   \<and> getGameRoom ''room-1'' (storage srv_joined) = Some (room_full\<lparr>r_currentPlayers := 3\<rparr>)
   \<and> getGameRoom ''room-1''
        (storage (fst (step env3 (Message 2 (JoinRoom (Some ''room-1'') (Some ''u2''))) srv_joined)))
       = Some (room_full\<lparr>r_currentPlayers := 4\<rparr>)"
proof -
  have env: "uuid1 env3 = ''row-3''"
    by (simp add: scenario_defs)
  have fresh: "uuid1 env3 \<notin> fst ` set (gameParticipants (storage srv_joined))"
    by (simp add: env srv_joined_eq)
  have rows: "map p_id (rows_of ''room-1'' ''u2'' (storage srv_joined)) = [''row-2'']"
    and room: "getGameRoom ''room-1'' (storage srv_joined) = Some (room_full\<lparr>r_currentPlayers := 3\<rparr>)"
    by (simp_all add: srv_joined_eq rows_of_def getGameRoom_def)
  from join_room_adds_row_each_time [OF fresh, of "''room-1''" "''u2''" 2] fresh rows room
  show ?thesis by (simp add: env)
qed

text \<open>
  C4, as stated, fails: in the lobby of u1 and u2, u1 asks for a room with
  \<^verbatim>\<open>maxPlayers: 0\<close>. The \<^verbatim>\<open>room_created\<close> frame carries \<^verbatim>\<open>currentPlayers = 2\<close>, not 1,
  and \<^verbatim>\<open>maxPlayers = 8\<close>, while zero clamped into [2, 16] is 2.
\<close>

theorem create_room_reply_counterexample:
  "snd (step env1 (Message 1 (CreateRoom (Some ''u1'') (Some ''Trivia Night'') (Some 0) None)) lobby2)
     = [(1, RoomCreated (room_full\<lparr>r_maxPlayers := 8\<rparr>)), (2, TypeOnly ''room_list_updated'')]
   \<and> r_currentPlayers (room_full\<lparr>r_maxPlayers := 8\<rparr>) = 2
   \<and> r_maxPlayers (room_full\<lparr>r_maxPlayers := 8\<rparr>) = 8
   \<and> max 2 (min 0 16) = (2::int)"
  by (simp add: lobby2_eq room_full_def scenario_defs handler_defs storage_defs Let_def)

text \<open>
  C4, amended. For every \<^verbatim>\<open>create_room\<close> message with a non-empty string user id, the
  first frame sent goes to the requester and is \<^verbatim>\<open>room_created\<close> with the room as the
  repository holds it: its id is the new room id, its host the user, its status
  \<^verbatim>\<open>waiting\<close>, and its \<^verbatim>\<open>maxPlayers\<close> the requested number clamped into [2, 16], where
  an absent, non-numeric or zero request counts as 8. After it, every registry entry of
  another user id that is in no room and whose socket is open is sent
  \<^verbatim>\<open>room_list_updated\<close>. (Nothing is said here about \<^verbatim>\<open>currentPlayers\<close> in the frame.)
\<close>

theorem create_room_reply:
  assumes "uid \<noteq> []"
  shows "(\<exists>room. hd (snd (step env (Message sock (CreateRoom (Some uid) roomName maxPlayers config)) srv))
                   = (sock, RoomCreated room)
                \<and> getGameRoom (uuid1 env)
                     (storage (fst (step env (Message sock (CreateRoom (Some uid) roomName maxPlayers config)) srv)))
                   = Some room
                \<and> r_id room = uuid1 env \<and> r_hostId room = uid \<and> r_status room = ''waiting''
                \<and> r_maxPlayers room
                     = max 2 (min (case maxPlayers of None \<Rightarrow> 8 | Some n \<Rightarrow> if n = 0 then 8 else n) 16)
                \<and> 2 \<le> r_maxPlayers room \<and> r_maxPlayers room \<le> 16)
         \<and> (\<forall>u p. (u, p) \<in> set (connectedPlayers srv) \<and> u \<noteq> uid \<and> \<not> truthy (roomId p)
                     \<and> ws p \<in> open_sockets env \<longrightarrow>
               (ws p, TypeOnly ''room_list_updated'')
                 \<in> set (tl (snd (step env (Message sock (CreateRoom (Some uid) roomName maxPlayers config)) srv))))"
proof -
  let ?res = "create_room env sock (Some uid) roomName maxPlayers config srv"
  let ?n = "case maxPlayers of None \<Rightarrow> 8 | Some n \<Rightarrow> if n = 0 then 8 else (n::int)"
  let ?players = "set_roomId uid (Some (uuid1 env)) (connectedPlayers srv)"
  define room where "room = \<lparr> r_id = uuid1 env,
      r_name = (case roomName of Some n \<Rightarrow> take 80 n | None \<Rightarrow> ''Room''),
      r_hostId = uid, r_status = ''waiting'', r_maxPlayers = max 2 (min ?n 16),
      r_currentPlayers = 2, r_config = config, r_questions = None, r_currentQuestionIndex = 0,
      r_createdAt = Date (date1 env), r_startedAt = None, r_finishedAt = None \<rparr>"
  have n: "(case maxPlayers of None \<Rightarrow> 8 | Some n \<Rightarrow> num_or n 8) = ?n"
    by (simp add: num_or_def split: option.splits)
  have cap: "num_or (max 2 (min ?n 16)) 8 = max 2 (min ?n 16)"
    by (simp add: num_or_def)
  from assms have frames: "snd ?res = (sock, RoomCreated room) # broadcastToLobby env ?players ''room_list_updated''"
    unfolding create_room_def n
    by (simp add: createGameRoom_def joinGameRoom_def addParticipant_def Let_def cap room_def
                  AList.update_conv')
  from assms have stored: "getGameRoom (uuid1 env) (storage (fst ?res)) = Some room"
    unfolding create_room_def n
    by (simp add: createGameRoom_def joinGameRoom_def addParticipant_def getGameRoom_def
                  Let_def cap room_def AList.update_conv')
  have first: "hd (snd ?res) = (sock, RoomCreated room)
      \<and> getGameRoom (uuid1 env) (storage (fst ?res)) = Some room
      \<and> r_id room = uuid1 env \<and> r_hostId room = uid \<and> r_status room = ''waiting''
      \<and> r_maxPlayers room = max 2 (min ?n 16) \<and> 2 \<le> r_maxPlayers room \<and> r_maxPlayers room \<le> 16"
    by (simp add: frames stored) (simp add: room_def)
  have kept: "(u, p) \<in> set ?players" if "(u, p) \<in> set (connectedPlayers srv)" and "u \<noteq> uid" for u p
  proof -
    have "(u, p) \<in> set al \<Longrightarrow> (u, p) \<in> set (AList.update uid v al)" for al v
      using that(2) by (induction al) auto
    with that(1) show ?thesis
      by (simp add: set_roomId_def split: option.splits)
  qed
  have lobby: "(ws p, TypeOnly ''room_list_updated'') \<in> set (tl (snd ?res))"
    if "(u, p) \<in> set (connectedPlayers srv)" and "u \<noteq> uid" and "\<not> truthy (roomId p)"
      and "ws p \<in> open_sockets env" for u p
    using kept [OF that(1,2)] that(3,4) unfolding frames
    by (force simp: broadcastToLobby_def)
  from first lobby show ?thesis
    unfolding step.simps on_message_def inbound.case by blast
qed

theorem create_room_reply_witness:
  "''u1'' \<noteq> []
   \<and> (''u2'', \<lparr>ws = 2, userId = ''u2'', roomId = None\<rparr>) \<in> set (connectedPlayers lobby2)
   \<and> ''u2'' \<noteq> ''u1'' \<and> \<not> truthy None \<and> 2 \<in> open_sockets env1
   \<and> (2, TypeOnly ''room_list_updated'')
       \<in> set (tl (snd (step env1 (Message 1 (CreateRoom (Some ''u1'') (Some ''Trivia Night'') (Some 4) None)) lobby2)))
   \<and> (\<exists>room. hd (snd (step env1 (Message 1 (CreateRoom (Some ''u1'') (Some ''Trivia Night'') (Some 4) None)) lobby2))
                = (1, RoomCreated room)
              \<and> r_status room = ''waiting'' \<and> r_maxPlayers room = 4)"
proof -
  have ne: "''u1'' \<noteq> []" by simp
  have entry: "(''u2'', \<lparr>ws = 2, userId = ''u2'', roomId = None\<rparr>) \<in> set (connectedPlayers lobby2)"
    by (simp add: lobby2_eq)
  have is_open: "2 \<in> open_sockets env1"
    by (simp add: scenario_defs)
  note reply = create_room_reply [OF ne, of env1 1 "Some ''Trivia Night''" "Some 4" None lobby2]
  from reply have "(2, TypeOnly ''room_list_updated'')
       \<in> set (tl (snd (step env1 (Message 1 (CreateRoom (Some ''u1'') (Some ''Trivia Night'') (Some 4) None)) lobby2)))"
    using entry is_open by fastforce
  moreover from reply have "\<exists>room. hd (snd (step env1 (Message 1 (CreateRoom (Some ''u1'') (Some ''Trivia Night'') (Some 4) None)) lobby2))
                = (1, RoomCreated room)
              \<and> r_status room = ''waiting'' \<and> r_maxPlayers room = 4"
    by auto
  ultimately show ?thesis using entry is_open by simp
qed

text \<open>
  C5, as stated, fails twice over in \<open>srv_full\<close>, where socket 2 holds the one entry u2,
  which has no current room. Its \<^verbatim>\<open>leave_room\<close> under its own user id is answered
  with no frame at all, so with no error. And its \<^verbatim>\<open>leave_room\<close> under the user id
  u1, whose entry is in the room, does change state: the handler finds the entry under
  the user id of the message, never under the socket, so the row of u1 is removed, the
  counter goes from 2 to 1, the entry of u1 loses its room, and three frames are sent.
\<close>

theorem leave_room_in_lobby_counterexample:
  "connectedPlayers srv_full
     = [(''u1'', \<lparr>ws = 1, userId = ''u1'', roomId = Some ''room-1''\<rparr>),
        (''u2'', \<lparr>ws = 2, userId = ''u2'', roomId = None\<rparr>)]
   \<and> step env2 (Message 2 (LeaveRoom (Some ''u2''))) srv_full = (srv_full, [])
   \<and> step env2 (Message 2 (LeaveRoom (Some ''u1''))) srv_full
       = (\<lparr>storage = \<lparr>gameRooms = [(''room-1'', room_full\<lparr>r_currentPlayers := 1\<rparr>)],
                      gameParticipants = []\<rparr>,
           connectedPlayers = [(''u1'', \<lparr>ws = 1, userId = ''u1'', roomId = None\<rparr>),
                               (''u2'', \<lparr>ws = 2, userId = ''u2'', roomId = None\<rparr>)]\<rparr>,
          [(2, TypeOnly ''room_left''), (1, TypeOnly ''room_list_updated''),
           (2, TypeOnly ''room_list_updated'')])"
  by (simp add: srv_full_eq room_full_def scenario_defs handler_defs storage_defs Let_def)

text \<open>
  C5, amended. The handler looks the registry up under the user id of the message,
  whatever socket sent it and whatever entries that socket holds. A \<^verbatim>\<open>leave_room\<close>
  message whose user id has no registry entry, or an entry with no current room, changes
  no state and sends no frame: neither an error nor \<^verbatim>\<open>room_left\<close> nor a broadcast.
\<close>

theorem leave_room_outside_room_is_silent:
  assumes "\<forall>u player. uid = Some u \<and> map_of (connectedPlayers srv) u = Some player
             \<longrightarrow> \<not> truthy (roomId player)"
  shows "step env (Message sock (LeaveRoom uid)) srv = (srv, [])"
proof (cases uid)
  case None
  then show ?thesis by (simp add: on_message_def leave_room_def)
next
  case (Some u)
  show ?thesis
  proof (cases "map_of (connectedPlayers srv) u")
    case None
    with Some show ?thesis by (simp add: on_message_def leave_room_def)
  next
    case (Some player)
    with \<open>uid = Some u\<close> assms have "\<not> truthy (roomId player)" by blast
    then have "roomId player = None \<or> roomId player = Some []"
      by (cases "roomId player") auto
    with Some \<open>uid = Some u\<close> show ?thesis
      by (auto simp: on_message_def leave_room_def)
  qed
qed

theorem leave_room_outside_room_is_silent_witness:
  "map_of (connectedPlayers srv_full) ''u2'' = Some \<lparr>ws = 2, userId = ''u2'', roomId = None\<rparr>
   \<and> \<not> truthy None
   \<and> map_of (connectedPlayers srv_full) ''u1'' = Some \<lparr>ws = 1, userId = ''u1'', roomId = Some ''room-1''\<rparr>
   \<and> step env2 (Message 1 (LeaveRoom (Some ''u2''))) srv_full = (srv_full, [])"
proof -
  have entry: "map_of (connectedPlayers srv_full) ''u2'' = Some \<lparr>ws = 2, userId = ''u2'', roomId = None\<rparr>"
    and sender: "map_of (connectedPlayers srv_full) ''u1'' = Some \<lparr>ws = 1, userId = ''u1'', roomId = Some ''room-1''\<rparr>"
    by (simp_all add: srv_full_eq)
  from entry have "\<forall>u player. Some ''u2'' = Some u \<and> map_of (connectedPlayers srv_full) u = Some player
               \<longrightarrow> \<not> truthy (roomId player)"
    by auto
  from leave_room_outside_room_is_silent [OF this, of env2 1] entry sender show ?thesis
    by simp
qed

text \<open>
  C6, as stated, fails in a state that one socket reaches by registering under two user
  ids. In \<open>srv_two_ids\<close> socket 1 is in the room through its entry u2. Closing socket 1
  cleans up its first entry only, u1, which is in no room: the room keeps its counter 2
  and the row of u2. After an explicit \<^verbatim>\<open>leave_room\<close> of u2 and then the close, the
  counter is 1 and the room has no row.
\<close>

theorem close_versus_leave_counterexample:
  "map_of (connectedPlayers srv_two_ids) ''u2''
     = Some \<lparr>ws = 1, userId = ''u2'', roomId = Some ''room-1''\<rparr>
   \<and> map_option r_currentPlayers
       (getGameRoom ''room-1'' (storage (fst (step env2 (Close 1) srv_two_ids)))) = Some 2
   \<and> map p_userId (getParticipants ''room-1'' (storage (fst (step env2 (Close 1) srv_two_ids))))
       = [''u2'']
   \<and> map_option r_currentPlayers
       (getGameRoom ''room-1''
          (storage (fst (step env2 (Close 1)
             (fst (step env2 (Message 1 (LeaveRoom (Some ''u2''))) srv_two_ids)))))) = Some 1
   \<and> map p_userId
       (getParticipants ''room-1''
          (storage (fst (step env2 (Close 1)
             (fst (step env2 (Message 1 (LeaveRoom (Some ''u2''))) srv_two_ids)))))) = []"
  by (simp add: srv_two_ids_eq room_full_def getParticipants_def scenario_defs handler_defs
                storage_defs Let_def)

text \<open>
  C6, amended. In every state reached from the start in which the registry entry that
  the \<^verbatim>\<open>close\<close> handler finds for a socket (the first entry holding that socket) is in a
  room, closing the socket ends in the same server state, repository and registry, as
  that socket's \<^verbatim>\<open>leave_room\<close> for the user id of that entry followed by the close.
\<close>

theorem close_equals_leave_then_close:
  assumes "find (\<lambda>(k, p). ws p = sock) (connectedPlayers (run evs init)) = Some (u, player)"
    and "truthy (roomId player)"
  shows "fst (step env (Close sock) (run evs init))
           = fst (step env' (Close sock)
                   (fst (step env'' (Message sock (LeaveRoom (Some u))) (run evs init))))"
proof -
  let ?srv = "run evs init"
  let ?P = "\<lambda>(k, p). ws p = sock"
  have keys: "distinct (map fst (connectedPlayers ?srv))"
    by (rule distinct_run) (simp add: init_def)
  from assms(1) have held: "ws player = sock" and mem: "(u, player) \<in> set (connectedPlayers ?srv)"
    using find_holds [of ?P "connectedPlayers ?srv" "(u, player)"] by auto
  from keys mem have entry: "map_of (connectedPlayers ?srv) u = Some player"
    by simp
  from assms(2) obtain r where r: "roomId player = Some r" "r \<noteq> []"
    by (cases "roomId player") auto
  let ?left = "\<lparr>storage = leaveGameRoom r u (storage ?srv),
                connectedPlayers = AList.update u (player\<lparr>roomId := None\<rparr>) (connectedPlayers ?srv)\<rparr>"
  have leave: "fst (step env'' (Message sock (LeaveRoom (Some u))) ?srv) = ?left"
    using entry r by (simp add: on_message_def leave_room_def Let_def)
  have found: "find ?P (connectedPlayers ?left) = Some (u, player\<lparr>roomId := None\<rparr>)"
    using find_update_same [OF keys assms(1), of "player\<lparr>roomId := None\<rparr>"] held by simp
  have after: "fst (step env' (Close sock) ?left)
      = \<lparr>storage = leaveGameRoom r u (storage ?srv),
         connectedPlayers = AList.delete u (connectedPlayers ?srv)\<rparr>"
    using found by (simp add: on_close_def Let_def AList.delete_update_same)
  have direct: "fst (step env (Close sock) ?srv)
      = \<lparr>storage = leaveGameRoom r u (storage ?srv),
         connectedPlayers = AList.delete u (connectedPlayers ?srv)\<rparr>"
    using assms(1) r by (simp add: on_close_def Let_def)
  show ?thesis
    unfolding leave after direct ..
qed

theorem close_equals_leave_then_close_witness:
  "find (\<lambda>(k, p). ws p = 1) (connectedPlayers (run evs_scenario1 init))
     = Some (''u1'', \<lparr>ws = 1, userId = ''u1'', roomId = Some ''room-1''\<rparr>)
   \<and> truthy (Some ''room-1'')
   \<and> fst (step env2 (Close 1) (run evs_scenario1 init))
       = fst (step env3 (Close 1)
               (fst (step env2 (Message 1 (LeaveRoom (Some ''u1''))) (run evs_scenario1 init))))
   \<and> fst (step env2 (Close 1) (run evs_scenario1 init))
       = \<lparr>storage = \<lparr>gameRooms = [(''room-1'', room_full\<lparr>r_maxPlayers := 4, r_currentPlayers := 1\<rparr>)],
                     gameParticipants = []\<rparr>,
          connectedPlayers = []\<rparr>"
proof -
  have found: "find (\<lambda>(k, p). ws p = 1) (connectedPlayers (run evs_scenario1 init))
      = Some (''u1'', \<lparr>ws = 1, userId = ''u1'', roomId = Some ''room-1''\<rparr>)"
    by (simp add: scenario1_eq)
  have in_room: "truthy (roomId \<lparr>ws = 1, userId = ''u1'', roomId = Some ''room-1''\<rparr>)"
    by simp
  have closed: "fst (step env2 (Close 1) (run evs_scenario1 init))
      = \<lparr>storage = \<lparr>gameRooms = [(''room-1'', room_full\<lparr>r_maxPlayers := 4, r_currentPlayers := 1\<rparr>)],
                    gameParticipants = []\<rparr>,
         connectedPlayers = []\<rparr>"
    by (simp add: scenario1_eq room_full_def on_close_def storage_defs Let_def)
  from close_equals_leave_then_close [OF found in_room, of env2 env3 env2] found closed
  show ?thesis by simp
qed

text \<open>
  C7, at a restarted server. The repository that \<^verbatim>\<open>loadData\<close> rebuilds from the data
  file holds two waiting rooms whose \<^verbatim>\<open>createdAt\<close> are strings. There the comparator
  of \<^verbatim>\<open>getGameRooms\<close> throws, and \<^verbatim>\<open>get_rooms\<close> is answered with the error frame of
  its \<^verbatim>\<open>catch\<close> branch instead of the two waiting rooms.
\<close>

theorem get_rooms_fails_after_restart:
  "map r_status (waiting_rooms (storage srv_restarted)) = [''waiting'', ''waiting'']
   \<and> getGameRooms (storage srv_restarted) = Inl TypeError
   \<and> step env1 (Message 1 GetRooms) srv_restarted
       = (srv_restarted, [(1, Error ''Failed to get rooms'')])"
  by (simp add: srv_restarted_def room_full_def waiting_rooms_def getGameRooms_def
                on_message_def get_rooms_def)

text \<open>
  C8. Whatever events the coordinator processes from its start (or from any state whose
  counters are non-negative), no room ever has a negative \<^verbatim>\<open>currentPlayers\<close>. Removing a
  participant lowers the counter by one with a floor of zero; and where the user has no
  row in the room, \<^verbatim>\<open>removeParticipant\<close>, and with it a \<^verbatim>\<open>leave_room\<close> message and a
  disconnect, leave the repository as it was.
\<close>

theorem currentPlayers_never_negative:
  "(getGameRoom rid (storage (run evs init)) = Some room \<longrightarrow> 0 \<le> r_currentPlayers room)
   \<and> (rooms_nonneg (storage srv0) \<longrightarrow> rooms_nonneg (storage (run evs srv0)))
   \<and> (has_row rid' uid st \<and> getGameRoom rid' st = Some room' \<longrightarrow>
        map_option r_currentPlayers (getGameRoom rid' (removeParticipant rid' uid st))
          = Some (max 0 (r_currentPlayers room' - 1)))
   \<and> (\<not> has_row rid' uid st \<longrightarrow> removeParticipant rid' uid st = st)
   \<and> (map_of (connectedPlayers srv) u = Some player \<and> roomId player = Some r
        \<and> \<not> has_row r u (storage srv) \<longrightarrow>
        storage (fst (step env (Message sock (LeaveRoom (Some u))) srv)) = storage srv)
   \<and> (find (\<lambda>(k, p). ws p = sock) (connectedPlayers srv) = Some (u, player)
        \<and> roomId player = Some r \<and> \<not> has_row r u (storage srv) \<longrightarrow>
        storage (fst (step env (Close sock) srv)) = storage srv)"
proof -
  have "rooms_nonneg (storage (run evs init))"
    by (rule rooms_nonneg_run [OF rooms_nonneg_init])
  then have run_init: "getGameRoom rid (storage (run evs init)) = Some room \<longrightarrow> 0 \<le> r_currentPlayers room"
    unfolding rooms_nonneg_def getGameRoom_def by (auto dest: list_all_snd_lookup)
  have leave: "map_of (connectedPlayers srv) u = Some player \<and> roomId player = Some r
        \<and> \<not> has_row r u (storage srv) \<longrightarrow>
        storage (fst (step env (Message sock (LeaveRoom (Some u))) srv)) = storage srv"
    by (simp add: on_message_def leave_room_no_row)
  have close: "find (\<lambda>(k, p). ws p = sock) (connectedPlayers srv) = Some (u, player)
        \<and> roomId player = Some r \<and> \<not> has_row r u (storage srv) \<longrightarrow>
        storage (fst (step env (Close sock) srv)) = storage srv"
    by (simp add: on_close_no_row)
  from run_init leave close show ?thesis
    by (simp add: rooms_nonneg_run removeParticipant_counter removeParticipant_no_row)
qed

theorem currentPlayers_never_negative_witness:
  "getGameRoom ''room-1'' (storage (run evs_leave_twice init)) = Some (room_zero\<lparr>r_name := ''Trivia Night'', r_maxPlayers := 4, r_currentPlayers := 1\<rparr>)
   \<and> (0::int) \<le> r_currentPlayers (room_zero\<lparr>r_name := ''Trivia Night'', r_maxPlayers := 4, r_currentPlayers := 1\<rparr>)
   \<and> rooms_nonneg st_zero
   \<and> rooms_nonneg (storage (run evs_leave_twice \<lparr>storage = st_zero, connectedPlayers = []\<rparr>))
   \<and> has_row ''room-1'' ''u2'' st_zero
   \<and> getGameRoom ''room-1'' st_zero = Some room_zero
   \<and> map_option r_currentPlayers (getGameRoom ''room-1'' (removeParticipant ''room-1'' ''u2'' st_zero)) = Some 0
   \<and> \<not> has_row ''room-1'' ''u1'' st_zero
   \<and> removeParticipant ''room-1'' ''u1'' st_zero = st_zero
   \<and> map_of (connectedPlayers srv_norow) ''u1'' = Some \<lparr>ws = 1, userId = ''u1'', roomId = Some ''room-1''\<rparr>
   \<and> \<not> has_row ''room-1'' ''u1'' (storage srv_norow)
   \<and> storage (fst (step env2 (Message 1 (LeaveRoom (Some ''u1''))) srv_norow)) = storage srv_norow
   \<and> find (\<lambda>(k, p). ws p = 1) (connectedPlayers srv_norow) = Some (''u1'', \<lparr>ws = 1, userId = ''u1'', roomId = Some ''room-1''\<rparr>)
   \<and> storage (fst (step env2 (Close 1) srv_norow)) = storage srv_norow"
proof -
  have run_w: "getGameRoom ''room-1'' (storage (run evs_leave_twice init))
      = Some (room_zero\<lparr>r_name := ''Trivia Night'', r_maxPlayers := 4, r_currentPlayers := 1\<rparr>)"
    by (simp add: evs_leave_twice_def scenario_defs handler_defs storage_defs room_zero_def Let_def)
  have nn: "rooms_nonneg st_zero"
    by (simp add: rooms_nonneg_def st_zero_def room_zero_def)
  have row: "has_row ''room-1'' ''u2'' st_zero" and room: "getGameRoom ''room-1'' st_zero = Some room_zero"
    and norow: "\<not> has_row ''room-1'' ''u1'' st_zero"
    by (simp_all add: has_row_def getGameRoom_def st_zero_def row_u2_def)
  have reg: "map_of (connectedPlayers srv_norow) ''u1'' = Some \<lparr>ws = 1, userId = ''u1'', roomId = Some ''room-1''\<rparr>"
    and fnd: "find (\<lambda>(k, p). ws p = 1) (connectedPlayers srv_norow) = Some (''u1'', \<lparr>ws = 1, userId = ''u1'', roomId = Some ''room-1''\<rparr>)"
    and norow': "\<not> has_row ''room-1'' ''u1'' (storage srv_norow)"
    by (simp_all add: srv_norow_def has_row_def)
  have zero: "r_currentPlayers room_zero = 0"
    by (simp add: room_zero_def)
  note with_row = currentPlayers_never_negative
    [of "''room-1''" evs_leave_twice
        "room_zero\<lparr>r_name := ''Trivia Night'', r_maxPlayers := 4, r_currentPlayers := 1\<rparr>"
        "\<lparr>storage = st_zero, connectedPlayers = []\<rparr>" "''room-1''" "''u2''" st_zero room_zero
        srv_norow "''u1''" "\<lparr>ws = 1, userId = ''u1'', roomId = Some ''room-1''\<rparr>" "''room-1''" env2 1]
  note without_row = currentPlayers_never_negative
    [of "''room-1''" evs_leave_twice
        "room_zero\<lparr>r_name := ''Trivia Night'', r_maxPlayers := 4, r_currentPlayers := 1\<rparr>"
        "\<lparr>storage = st_zero, connectedPlayers = []\<rparr>" "''room-1''" "''u1''" st_zero room_zero
        srv_norow "''u1''" "\<lparr>ws = 1, userId = ''u1'', roomId = Some ''room-1''\<rparr>" "''room-1''" env2 1]
  from with_row without_row run_w nn row room norow reg fnd norow' zero
  show ?thesis by simp
qed

text \<open>
  C9, as stated, fails: socket 1 registers as u1 and creates a room; when socket 2
  registers as u1 too, the registry holds one entry, that of socket 2 with no room, and
  the entry of socket 1 with its room is gone.
\<close>

theorem same_user_second_socket_counterexample:
  "connectedPlayers (run evs_scenario1 init)
     = [(''u1'', \<lparr>ws = 1, userId = ''u1'', roomId = Some ''room-1''\<rparr>)]
   \<and> connectedPlayers (run evs_same_user init)
     = [(''u1'', \<lparr>ws = 2, userId = ''u1'', roomId = None\<rparr>)]"
  unfolding evs_same_user_def run_append scenario1_eq
  by (simp add: on_message_def join_lobby_def)

text \<open>
  C9, amended. The registry is keyed by the user id, one entry for each: a
  \<^verbatim>\<open>join_lobby\<close> with a non-empty user id makes the entry of that id the requesting
  socket with no current room. Where the id was registered before, by whatever socket,
  that entry is overwritten in place and the keys of the registry stay as they were; the
  entries of all other ids and the repository are untouched, and the requester is sent
  \<^verbatim>\<open>lobby_joined\<close>.
\<close>

theorem join_lobby_overwrites_entry:
  assumes "uid \<noteq> []"
  shows "map_of (connectedPlayers (fst (step env (Message sock (JoinLobby (Some uid))) srv))) uid
           = Some \<lparr>ws = sock, userId = uid, roomId = None\<rparr>
         \<and> (\<forall>k. k \<noteq> uid \<longrightarrow>
               map_of (connectedPlayers (fst (step env (Message sock (JoinLobby (Some uid))) srv))) k
                 = map_of (connectedPlayers srv) k)
         \<and> (map_of (connectedPlayers srv) uid \<noteq> None \<longrightarrow>
               map fst (connectedPlayers (fst (step env (Message sock (JoinLobby (Some uid))) srv)))
                 = map fst (connectedPlayers srv))
         \<and> storage (fst (step env (Message sock (JoinLobby (Some uid))) srv)) = storage srv
         \<and> snd (step env (Message sock (JoinLobby (Some uid))) srv) = [(sock, LobbyJoined uid)]"
proof -
  have keys: "map_of (connectedPlayers srv) uid \<noteq> None \<Longrightarrow> uid \<in> fst ` set (connectedPlayers srv)"
    by (simp add: map_of_eq_None_iff)
  from assms show ?thesis
    by (auto simp: on_message_def join_lobby_def AList.update_conv' AList.update_keys dest: keys)
qed

theorem join_lobby_overwrites_entry_witness:
  "''u1'' \<noteq> []
   \<and> map_of (connectedPlayers (run evs_scenario1 init)) ''u1''
       = Some \<lparr>ws = 1, userId = ''u1'', roomId = Some ''room-1''\<rparr>
   \<and> map_of (connectedPlayers (fst (step env2 (Message 2 (JoinLobby (Some ''u1''))) (run evs_scenario1 init)))) ''u1''
       = Some \<lparr>ws = 2, userId = ''u1'', roomId = None\<rparr>
   \<and> map fst (connectedPlayers (fst (step env2 (Message 2 (JoinLobby (Some ''u1''))) (run evs_scenario1 init))))
       = [''u1'']"
proof -
  have ne: "''u1'' \<noteq> []" by simp
  have before: "map_of (connectedPlayers (run evs_scenario1 init)) ''u1''
      = Some \<lparr>ws = 1, userId = ''u1'', roomId = Some ''room-1''\<rparr>"
    and keys: "map fst (connectedPlayers (run evs_scenario1 init)) = [''u1'']"
    by (simp_all add: scenario1_eq)
  from join_lobby_overwrites_entry [OF ne, of env2 2 "run evs_scenario1 init"] before keys
  show ?thesis by simp
qed



end
